theory Spec2Isabelle
  imports Main
begin

section \<open>Python primitives used by the sources\<close>

text \<open>
  Python strings are modelled as \<^typ>\<open>string\<close>, one \<^typ>\<open>char\<close> per code point below 256.
  A value is falsy in a Python condition when it is \<open>None\<close>, the empty string, the empty
  list or the empty dict.
\<close>

datatype py_error =
    ValueError
  | ImportError
  | FileNotFoundError
  | RuntimeError string
  | OtherException string

text \<open>\<open>str.isspace\<close> on the code points below 256.\<close>

definition isspace :: "char \<Rightarrow> bool" where
  "isspace c = (of_char c \<in> {9, 10, 11, 12, 13, 28, 29, 30, 31, 32, 133, 160 :: nat})"

text \<open>\<open>str.strip()\<close>: leading and trailing whitespace removed.\<close>

definition strip :: "string \<Rightarrow> string" where
  "strip s = rev (dropWhile isspace (rev (dropWhile isspace s)))"

text \<open>
  \<open>str.split(sep)\<close> for a non-empty separator: a left-to-right scan, cutting at each
  non-overlapping occurrence of \<open>sep\<close>. \<open>cur\<close> is the piece collected so far.
\<close>

function split_scan :: "string \<Rightarrow> string \<Rightarrow> string \<Rightarrow> string list" where
  "split_scan sep cur [] = [cur]"
| "split_scan sep cur (c # cs) =
     (if sep \<noteq> [] \<and> take (length sep) (c # cs) = sep
      then cur # split_scan sep [] (drop (length sep) (c # cs))
      else split_scan sep (cur @ [c]) cs)"
  by pat_completeness auto
termination
  by (relation "measure (\<lambda>(sep, cur, s). length s)") auto

text \<open>\<open>s.split(sep)\<close>; an empty separator raises \<open>ValueError\<close>.\<close>

definition split :: "string \<Rightarrow> string \<Rightarrow> py_error + string list" where
  "split s sep = (if sep = [] then Inl ValueError else Inr (split_scan sep [] s))"

text \<open>\<open>sep.join(xs)\<close>, used to state what a delimited string is.\<close>

fun join :: "string \<Rightarrow> string list \<Rightarrow> string" where
  "join sep [] = []"
| "join sep [x] = x"
| "join sep (x # y # ys) = x @ sep @ join sep (y # ys)"


section \<open>core/config.py: multi-account configuration\<close>

text \<open>
  \<open>parse_multi_account_config(config_value, separator=";")\<close>. The default separator is
  passed explicitly as \<open>'';''\<close>.
\<close>

definition parse_multi_account_config :: "string \<Rightarrow> string \<Rightarrow> py_error + string list" where
  "parse_multi_account_config config_value separator =
     (if config_value = [] then Inr []
      else case split config_value separator of
             Inl e \<Rightarrow> Inl e
           | Inr parts \<Rightarrow>
               (let accounts = map strip parts
                in if list_all (\<lambda>acc. acc = []) accounts then Inr [] else Inr accounts))"

text \<open>
  A \<open>Dict[str, List[str]]\<close> is an association list in insertion order; a Python dict has
  each key once, which is the hypothesis \<open>distinct (map fst configs)\<close> below.
\<close>

type_synonym accounts_dict = "(string \<times> string list) list"

text \<open>
  The loop over \<open>required_keys\<close> of \<open>validate_paired_configs\<close>: \<open>True\<close> when the loop
  returns early because a required key is not among the non-empty entries.
\<close>

fun required_missing :: "accounts_dict \<Rightarrow> string list \<Rightarrow> bool" where
  "required_missing non_empty_configs [] = False"
| "required_missing non_empty_configs (key # keys) =
     (if key \<notin> set (map fst non_empty_configs)
         \<or> (case map_of non_empty_configs key of None \<Rightarrow> True | Some v \<Rightarrow> v = [])
      then True
      else required_missing non_empty_configs keys)"

text \<open>
  \<open>validate_paired_configs(configs, channel_name, required_keys=None)\<close>. The channel name
  is only printed, and the diagnostic of the mismatch branch is console output; neither
  is part of the returned pair.
\<close>

definition validate_paired_configs ::
  "accounts_dict \<Rightarrow> string list option \<Rightarrow> bool \<times> int" where
  "validate_paired_configs configs required_keys =
     (let non_empty_configs = filter (\<lambda>(k, v). v \<noteq> []) configs
      in if non_empty_configs = [] then (True, 0)
         else if (case required_keys of None \<Rightarrow> False
                  | Some keys \<Rightarrow> keys \<noteq> [] \<and> required_missing non_empty_configs keys)
         then (True, 0)
         else
           (let lengths = map (\<lambda>(k, v). (k, int (length v))) non_empty_configs;
                unique_lengths = remdups (map snd lengths)
            in if length unique_lengths > 1 then (False, 0)
               else (True, (case unique_lengths of [] \<Rightarrow> 0 | n # _ \<Rightarrow> n))))"

text \<open>\<open>limit_accounts\<close>: the first \<open>max_count\<close> accounts (Python slicing with a
  negative bound counts from the end).\<close>

definition limit_accounts :: "string list \<Rightarrow> int \<Rightarrow> string list" where
  "limit_accounts accounts max_count =
     (if int (length accounts) > max_count
      then (if max_count \<ge> 0 then take (nat max_count) accounts
            else take (nat (int (length accounts) + max_count)) accounts)
      else accounts)"



section \<open>storage/manager.py: the storage manager\<close>

text \<open>
  \<open>remote_config\<close> and \<open>os.environ\<close> are dicts from names to strings; a key bound to
  \<open>None\<close> behaves like an absent key in every use below.
\<close>

type_synonym str_dict = "string \<rightharpoonup> string"

definition truthy :: "string option \<Rightarrow> bool" where
  "truthy v = (case v of None \<Rightarrow> False | Some s \<Rightarrow> s \<noteq> [])"

text \<open>Python's \<open>a or b\<close> on optional strings.\<close>

definition py_or :: "string option \<Rightarrow> string option \<Rightarrow> string option" where
  "py_or a b = (if truthy a then a else b)"

text \<open>
  A backend object, with the arguments its constructor received. The classes themselves
  (\<open>storage/local.py\<close>, \<open>storage/remote.py\<close>) are outside the sources at hand.
\<close>

datatype backend =
    LocalStorageBackend string bool bool string
  | RemoteStorageBackend string string string string string bool bool string

text \<open>
  What lies outside the manager: the process environment, whether importing and
  constructing each backend class raises (\<open>None\<close>: it does not), and the day-buckets
  held by the local directory and by the remote object store, each bucket given by its
  age in days relative to the current day.
\<close>

record world =
  environ :: str_dict
  remote_constructor_raises :: "py_error option"
  local_constructor_raises :: "py_error option"
  local_store :: "int list"
  remote_store :: "int list"

record storage_manager =
  backend_type :: string
  data_dir :: string
  enable_txt :: bool
  enable_html :: bool
  remote_config :: str_dict
  local_retention_days :: int
  remote_retention_days :: int
  pull_enabled :: bool
  pull_days :: int
  timezone :: string
  priv_backend :: "backend option"
  priv_remote_backend :: "backend option"

definition is_github_actions :: "world \<Rightarrow> bool" where
  "is_github_actions w = (environ w ''GITHUB_ACTIONS'' = Some ''true'')"

definition has_remote_config :: "storage_manager \<Rightarrow> world \<Rightarrow> bool" where
  "has_remote_config m w =
     (let bucket_name = py_or (remote_config m ''bucket_name'') (environ w ''S3_BUCKET_NAME'');
          access_key = py_or (remote_config m ''access_key_id'') (environ w ''S3_ACCESS_KEY_ID'');
          secret_key = py_or (remote_config m ''secret_access_key'') (environ w ''S3_SECRET_ACCESS_KEY'');
          endpoint = py_or (remote_config m ''endpoint_url'') (environ w ''S3_ENDPOINT_URL'')
      in truthy bucket_name \<and> truthy access_key \<and> truthy secret_key \<and> truthy endpoint)"

definition resolve_backend_type :: "storage_manager \<Rightarrow> world \<Rightarrow> string" where
  "resolve_backend_type m w =
     (if backend_type m = ''auto'' then
        (if is_github_actions w then
           (if has_remote_config m w then ''remote'' else ''local'')
         else ''local'')
      else backend_type m)"

text \<open>\<open>self.remote_config.get(key) or os.environ.get(env_key, "")\<close>.\<close>

definition config_or_environ :: "storage_manager \<Rightarrow> world \<Rightarrow> string \<Rightarrow> string \<Rightarrow> string" where
  "config_or_environ m w key env_key =
     (case py_or (remote_config m key)
                 (Some (case environ w env_key of None \<Rightarrow> [] | Some v \<Rightarrow> v)) of
        None \<Rightarrow> [] | Some v \<Rightarrow> v)"

text \<open>The import of the class followed by the constructor call; either may raise.\<close>

definition new_remote_backend :: "storage_manager \<Rightarrow> world \<Rightarrow> py_error + backend" where
  "new_remote_backend m w =
     (case remote_constructor_raises w of
        Some e \<Rightarrow> Inl e
      | None \<Rightarrow> Inr (RemoteStorageBackend
          (config_or_environ m w ''bucket_name'' ''S3_BUCKET_NAME'')
          (config_or_environ m w ''access_key_id'' ''S3_ACCESS_KEY_ID'')
          (config_or_environ m w ''secret_access_key'' ''S3_SECRET_ACCESS_KEY'')
          (config_or_environ m w ''endpoint_url'' ''S3_ENDPOINT_URL'')
          (config_or_environ m w ''region'' ''S3_REGION'')
          (enable_txt m) (enable_html m) (timezone m)))"

definition new_local_backend :: "storage_manager \<Rightarrow> world \<Rightarrow> py_error + backend" where
  "new_local_backend m w =
     (case local_constructor_raises w of
        Some e \<Rightarrow> Inl e
      | None \<Rightarrow> Inr (LocalStorageBackend (data_dir m) (enable_txt m) (enable_html m) (timezone m)))"

text \<open>\<open>_create_remote_backend\<close>: the \<open>try\<close> with its two \<open>except\<close> clauses, both
  returning \<open>None\<close>.\<close>

definition create_remote_backend :: "storage_manager \<Rightarrow> world \<Rightarrow> backend option" where
  "create_remote_backend m w =
     (case new_remote_backend m w of
        Inr b \<Rightarrow> Some b
      | Inl ImportError \<Rightarrow> None
      | Inl e \<Rightarrow> None)"

text \<open>
  \<open>get_backend\<close>: the memoised backend, constructed on first use. \<open>created\<close> is what
  the remote branch left in \<open>self._backend\<close>; the Local backend is constructed when the
  resolved type is \<open>local\<close> or nothing was left there.
\<close>

definition get_backend :: "storage_manager \<Rightarrow> world \<Rightarrow> py_error + (backend \<times> storage_manager)" where
  "get_backend m w =
     (case priv_backend m of
        Some b \<Rightarrow> Inr (b, m)
      | None \<Rightarrow>
          (let resolved_type = resolve_backend_type m w;
               (created, resolved_type) =
                 (if resolved_type = ''remote'' then
                    (case create_remote_backend m w of
                       Some b \<Rightarrow> (Some b, resolved_type)
                     | None \<Rightarrow> (None, ''local''))
                  else (None, resolved_type))
           in case (if resolved_type = ''local'' \<or> created = None then None else created) of
                None \<Rightarrow>
                  (case new_local_backend m w of
                     Inl e \<Rightarrow> Inl e
                   | Inr b \<Rightarrow> Inr (b, m\<lparr>priv_backend := Some b\<rparr>))
              | Some b \<Rightarrow> Inr (b, m\<lparr>priv_backend := Some b\<rparr>)))"

text \<open>
  Modelled from the spec: the backends' own \<open>cleanup_old_data(retention_days)\<close>, whose
  classes are not among the sources: it deletes the day-buckets older than
  \<open>retention_days\<close> relative to the current day, returns how many it removed, and a
  retention of 0 never deletes. A Local backend works on the local directory, a Remote
  backend on the remote object store.
\<close>

definition expire :: "int \<Rightarrow> int list \<Rightarrow> int \<times> int list" where
  "expire retention_days buckets =
     (if retention_days \<le> 0 then (0, buckets)
      else (int (length (filter (\<lambda>age. age > retention_days) buckets)),
            filter (\<lambda>age. \<not> age > retention_days) buckets))"

fun backend_cleanup_old_data :: "backend \<Rightarrow> int \<Rightarrow> world \<Rightarrow> int \<times> world" where
  "backend_cleanup_old_data (LocalStorageBackend _ _ _ _) retention_days w =
     (let (n, kept) = expire retention_days (local_store w) in (n, w\<lparr>local_store := kept\<rparr>))"
| "backend_cleanup_old_data (RemoteStorageBackend _ _ _ _ _ _ _ _) retention_days w =
     (let (n, kept) = expire retention_days (remote_store w) in (n, w\<lparr>remote_store := kept\<rparr>))"

text \<open>\<open>StorageManager.cleanup_old_data\<close>: the count, the manager and the world afterwards.\<close>

definition cleanup_old_data ::
  "storage_manager \<Rightarrow> world \<Rightarrow> py_error + (int \<times> storage_manager \<times> world)" where
  "cleanup_old_data m w =
     (let total_deleted = 0
      in case (if local_retention_days m > 0 then
                 (case get_backend m w of
                    Inl e \<Rightarrow> Inl e
                  | Inr (b, m1) \<Rightarrow>
                      (let (n, w1) = backend_cleanup_old_data b (local_retention_days m1) w
                       in Inr (total_deleted + n, m1, w1)))
               else Inr (total_deleted, m, w)) of
           Inl e \<Rightarrow> Inl e
         | Inr (total_deleted, m1, w1) \<Rightarrow>
             (if remote_retention_days m1 > 0 \<and> has_remote_config m1 w1 then
                (let m2 = (if priv_remote_backend m1 = None
                           then m1\<lparr>priv_remote_backend := create_remote_backend m1 w1\<rparr>
                           else m1)
                 in case priv_remote_backend m2 of
                      Some rb \<Rightarrow>
                        (let (n, w2) = backend_cleanup_old_data rb (remote_retention_days m2) w1
                         in Inr (total_deleted + n, m2, w2))
                    | None \<Rightarrow> Inr (total_deleted, m2, w1))
              else Inr (total_deleted, m1, w1)))"



section \<open>__main__.py: the analyzer\<close>

text \<open>
  Crawl results and new-title dicts map a platform id to its titles; the metadata kept
  with each title is only handed on to the collaborators and is left out. A keyword-group
  statistic is a dict of which the analyzer reads the key \<open>count\<close>.
\<close>

type_synonym titles_dict = "(string \<times> string list) list"

record stat =
  word :: string
  count :: int

text \<open>The configuration keys that \<open>__main__.py\<close> reads, nested keys flattened.\<close>

record config =
  REPORT_MODE :: string
  ENABLE_NOTIFICATION :: bool
  FEISHU_WEBHOOK_URL :: string
  DINGTALK_WEBHOOK_URL :: string
  WEWORK_WEBHOOK_URL :: string
  TELEGRAM_BOT_TOKEN :: string
  TELEGRAM_CHAT_ID :: string
  EMAIL_FROM :: string
  EMAIL_PASSWORD :: string
  EMAIL_TO :: string
  NTFY_SERVER_URL :: string
  NTFY_TOPIC :: string
  BARK_URL :: string
  SLACK_WEBHOOK_URL :: string
  PUSH_WINDOW_ENABLED :: bool
  PUSH_WINDOW_ONCE_PER_DAY :: bool
  PUSH_WINDOW_TIME_RANGE_START :: string
  PUSH_WINDOW_TIME_RANGE_END :: string
  STORAGE_FORMATS_HTML :: bool
  STORAGE_FORMATS_TXT :: bool
  SHOW_VERSION_UPDATE :: bool

record mode_strategy =
  mode_name :: string
  description :: string
  realtime_report_type :: string
  summary_report_type :: string
  should_send_realtime :: bool
  should_generate_summary :: bool
  summary_mode :: string

definition incremental_strategy :: mode_strategy where
  "incremental_strategy = \<lparr>
     mode_name = ''Incremental Mode'',
     description = ''Incremental mode (only new news, no push if nothing new)'',
     realtime_report_type = ''Real-time Incremental'',
     summary_report_type = ''Daily Summary'',
     should_send_realtime = True,
     should_generate_summary = True,
     summary_mode = ''daily''\<rparr>"

definition current_strategy :: mode_strategy where
  "current_strategy = \<lparr>
     mode_name = ''Current Rankings Mode'',
     description = ''Current rankings mode (current matches + new news section + scheduled push)'',
     realtime_report_type = ''Real-time Current Rankings'',
     summary_report_type = ''Current Rankings Summary'',
     should_send_realtime = True,
     should_generate_summary = True,
     summary_mode = ''current''\<rparr>"

definition daily_strategy :: mode_strategy where
  "daily_strategy = \<lparr>
     mode_name = ''Daily Summary Mode'',
     description = ''Daily summary mode (all matches + new news section + scheduled push)'',
     realtime_report_type = [],
     summary_report_type = ''Daily Summary'',
     should_send_realtime = False,
     should_generate_summary = True,
     summary_mode = ''daily''\<rparr>"

definition MODE_STRATEGIES :: "(string \<times> mode_strategy) list" where
  "MODE_STRATEGIES =
     [(''incremental'', incremental_strategy),
      (''current'', current_strategy),
      (''daily'', daily_strategy)]"

text \<open>
  What the run leaves behind: a notification handed to the dispatcher (report type and
  mode), an HTML report rendered (mode and the daily-summary flag), the day's push
  recorded, the crawl stored.
\<close>

datatype event =
    NewsDataSaved
  | HtmlGenerated string bool
  | Dispatched string string
  | PushRecorded string

text \<open>
  The collaborators reached through \<open>AppContext\<close>, the data fetcher and the storage
  manager, none of them among the sources: each is a parameter of the model, a value
  where the call takes no argument that varies within a run. \<open>read_today_titles\<close> may
  raise, as the \<open>try\<close> around it in \<open>_load_analysis_data\<close> allows.
\<close>

record app_context =
  config :: config
  crawl_websites :: "titles_dict \<times> string list"
  save_news_data :: bool
  read_today_titles :: "py_error + titles_dict"
  detect_new_titles :: "titles_dict option"
  count_frequency :: "titles_dict \<Rightarrow> string \<Rightarrow> titles_dict option \<Rightarrow> stat list \<times> int"
  generate_html :: "stat list \<Rightarrow> int \<Rightarrow> string \<Rightarrow> bool \<Rightarrow> string option"
  is_in_time_range :: "string \<Rightarrow> string \<Rightarrow> bool"
  dispatch_all :: "stat list \<Rightarrow> titles_dict option \<Rightarrow> string \<Rightarrow> string \<Rightarrow> (string \<times> bool) list"

text \<open>
  Modelled from the spec: the push record behind \<open>has_pushed_today\<close> and
  \<open>record_push\<close> of the push manager, which is not among the sources: one flag for the
  current calendar day, read by the first and set by the second.
\<close>

record run_state =
  pushed_today :: bool
  events :: "event list"

record news_analyzer =
  ctx :: app_context
  report_mode :: string

text \<open>\<open>__init__\<close>: the report mode is read from the configuration once.\<close>

definition news_analyzer_init :: "app_context \<Rightarrow> news_analyzer" where
  "news_analyzer_init c = \<lparr>ctx = c, report_mode = REPORT_MODE (config c)\<rparr>"

definition log_event :: "event \<Rightarrow> run_state \<Rightarrow> run_state" where
  "log_event e st = st\<lparr>events := events st @ [e]\<rparr>"

definition get_mode_strategy :: "news_analyzer \<Rightarrow> mode_strategy" where
  "get_mode_strategy a =
     (case map_of MODE_STRATEGIES (report_mode a) of
        Some strategy \<Rightarrow> strategy
      | None \<Rightarrow> daily_strategy)"

definition has_notification_configured :: "news_analyzer \<Rightarrow> bool" where
  "has_notification_configured a =
     (let cfg = config (ctx a)
      in list_ex (\<lambda>b. b)
           [FEISHU_WEBHOOK_URL cfg \<noteq> [],
            DINGTALK_WEBHOOK_URL cfg \<noteq> [],
            WEWORK_WEBHOOK_URL cfg \<noteq> [],
            TELEGRAM_BOT_TOKEN cfg \<noteq> [] \<and> TELEGRAM_CHAT_ID cfg \<noteq> [],
            EMAIL_FROM cfg \<noteq> [] \<and> EMAIL_PASSWORD cfg \<noteq> [] \<and> EMAIL_TO cfg \<noteq> [],
            NTFY_SERVER_URL cfg \<noteq> [] \<and> NTFY_TOPIC cfg \<noteq> [],
            BARK_URL cfg \<noteq> [],
            SLACK_WEBHOOK_URL cfg \<noteq> []])"

text \<open>\<open>bool(new_titles and any(len(titles) > 0 for titles in new_titles.values()))\<close>.\<close>

definition has_new_titles :: "titles_dict option \<Rightarrow> bool" where
  "has_new_titles new_titles =
     (case new_titles of
        None \<Rightarrow> False
      | Some d \<Rightarrow> d \<noteq> [] \<and> list_ex (\<lambda>titles. length titles > 0) (map snd d))"

definition has_valid_content :: "news_analyzer \<Rightarrow> stat list \<Rightarrow> titles_dict option \<Rightarrow> bool" where
  "has_valid_content a stats new_titles =
     (if report_mode a = ''incremental'' then
        (let has_new = has_new_titles new_titles;
             has_matched_news = list_ex (\<lambda>stat. count stat > 0) stats
         in has_new \<and> has_matched_news)
      else if report_mode a = ''current'' then
        list_ex (\<lambda>stat. count stat > 0) stats
      else
        (let has_matched_news = list_ex (\<lambda>stat. count stat > 0) stats;
             has_new_news = has_new_titles new_titles
         in has_matched_news \<or> has_new_news))"

text \<open>\<open>_load_analysis_data\<close>: of the tuple it returns, the accumulated results and the
  new titles.\<close>

definition load_analysis_data :: "news_analyzer \<Rightarrow> (titles_dict \<times> titles_dict option) option" where
  "load_analysis_data a =
     (case read_today_titles (ctx a) of
        Inl e \<Rightarrow> None
      | Inr all_results \<Rightarrow>
          (if all_results = [] then None
           else Some (all_results, detect_new_titles (ctx a))))"

definition run_analysis_pipeline ::
  "news_analyzer \<Rightarrow> titles_dict \<Rightarrow> string \<Rightarrow> titles_dict option \<Rightarrow> bool \<Rightarrow> run_state
   \<Rightarrow> stat list \<times> string option \<times> run_state" where
  "run_analysis_pipeline a data_source mode new_titles is_daily_summary st =
     (let (stats, total_titles) = count_frequency (ctx a) data_source mode new_titles
      in if STORAGE_FORMATS_HTML (config (ctx a)) then
           (stats, generate_html (ctx a) stats total_titles mode is_daily_summary,
            log_event (HtmlGenerated mode is_daily_summary) st)
         else (stats, None, st))"

text \<open>
  \<open>_send_notification_if_needed\<close>. The two early returns of the push-window block are
  the first two branches; the report type and the mode go to the dispatcher as given.
\<close>

definition send_notification_if_needed ::
  "news_analyzer \<Rightarrow> stat list \<Rightarrow> string \<Rightarrow> string \<Rightarrow> titles_dict option \<Rightarrow> run_state
   \<Rightarrow> bool \<times> run_state" where
  "send_notification_if_needed a stats report_type mode new_titles st =
     (let has_notification = has_notification_configured a;
          cfg = config (ctx a)
      in if ENABLE_NOTIFICATION cfg \<and> has_notification \<and> has_valid_content a stats new_titles then
           (if PUSH_WINDOW_ENABLED cfg
               \<and> \<not> is_in_time_range (ctx a) (PUSH_WINDOW_TIME_RANGE_START cfg)
                                            (PUSH_WINDOW_TIME_RANGE_END cfg)
            then (False, st)
            else if PUSH_WINDOW_ENABLED cfg \<and> PUSH_WINDOW_ONCE_PER_DAY cfg \<and> pushed_today st
            then (False, st)
            else
              (let results = dispatch_all (ctx a) stats new_titles report_type mode;
                   st1 = log_event (Dispatched report_type mode) st
               in if results = [] then (False, st1)
                  else if PUSH_WINDOW_ENABLED cfg \<and> PUSH_WINDOW_ONCE_PER_DAY cfg
                          \<and> list_ex (\<lambda>ok. ok) (map snd results)
                  then (True, log_event (PushRecorded report_type) (st1\<lparr>pushed_today := True\<rparr>))
                  else (True, st1)))
         else (False, st))"

definition generate_summary_report ::
  "news_analyzer \<Rightarrow> mode_strategy \<Rightarrow> run_state \<Rightarrow> string option \<times> run_state" where
  "generate_summary_report a mode_strategy st =
     (case load_analysis_data a of
        None \<Rightarrow> (None, st)
      | Some (all_results, new_titles) \<Rightarrow>
          (let (stats, html_file, st1) =
                 run_analysis_pipeline a all_results (summary_mode mode_strategy) new_titles True st;
               (sent, st2) =
                 send_notification_if_needed a stats (summary_report_type mode_strategy)
                   (summary_mode mode_strategy) new_titles st1
           in (html_file, st2)))"

definition generate_summary_html ::
  "news_analyzer \<Rightarrow> string \<Rightarrow> run_state \<Rightarrow> string option \<times> run_state" where
  "generate_summary_html a mode st =
     (case load_analysis_data a of
        None \<Rightarrow> (None, st)
      | Some (all_results, new_titles) \<Rightarrow>
          (let (stats, html_file, st1) =
                 run_analysis_pipeline a all_results mode new_titles True st
           in (html_file, st1)))"

definition crawl_data :: "news_analyzer \<Rightarrow> run_state \<Rightarrow> titles_dict \<times> string list \<times> run_state" where
  "crawl_data a st =
     (let (results, failed_ids) = crawl_websites (ctx a)
      in (results, failed_ids,
          if save_news_data (ctx a) then log_event NewsDataSaved st else st))"

text \<open>
  \<open>_execute_mode_strategy\<close>: the real-time stage, then the summary stage. Opening the
  browser at the end does not touch the run state and is left out.
\<close>

definition execute_mode_strategy ::
  "news_analyzer \<Rightarrow> mode_strategy \<Rightarrow> titles_dict \<Rightarrow> string list \<Rightarrow> run_state
   \<Rightarrow> py_error + (string option \<times> run_state)" where
  "execute_mode_strategy a mode_strategy results failed_ids st =
     (let new_titles = detect_new_titles (ctx a)
      in case (if report_mode a = ''current'' then
                 (case load_analysis_data a of
                    Some (all_results, historical_new_titles) \<Rightarrow>
                      (let (stats, html_file, st1) =
                             run_analysis_pipeline a all_results (report_mode a)
                               historical_new_titles False st
                       in if should_send_realtime mode_strategy then
                            Inr (snd (send_notification_if_needed a stats
                                        (realtime_report_type mode_strategy) (report_mode a)
                                        historical_new_titles st1))
                          else Inr st1)
                  | None \<Rightarrow>
                      Inl (RuntimeError ''Data consistency check failed: read failed after save''))
               else
                 (let (stats, html_file, st1) =
                        run_analysis_pipeline a results (report_mode a) new_titles False st
                  in if should_send_realtime mode_strategy then
                       Inr (snd (send_notification_if_needed a stats
                                   (realtime_report_type mode_strategy) (report_mode a)
                                   new_titles st1))
                     else Inr st1)) of
           Inl e \<Rightarrow> Inl e
         | Inr st2 \<Rightarrow>
             (if should_generate_summary mode_strategy then
                (if should_send_realtime mode_strategy then
                   Inr (generate_summary_html a (summary_mode mode_strategy) st2)
                 else
                   Inr (generate_summary_report a mode_strategy st2))
              else Inr (None, st2)))"

text \<open>
  \<open>run\<close>: an exception is printed and raised again; the \<open>finally\<close> clause releases
  resources and does not change the outcome.
\<close>

definition run :: "news_analyzer \<Rightarrow> run_state \<Rightarrow> py_error + run_state" where
  "run a st =
     (let mode_strategy = get_mode_strategy a;
          (results, failed_ids, st1) = crawl_data a st
      in case execute_mode_strategy a mode_strategy results failed_ids st1 of
           Inl e \<Rightarrow> Inl e
         | Inr (summary_html, st2) \<Rightarrow> Inr st2)"



section \<open>Notions used to state the properties\<close>

text \<open>The account list of a key is empty: the key is absent or bound to the empty list.\<close>

definition account_list_empty :: "accounts_dict \<Rightarrow> string \<Rightarrow> bool" where
  "account_list_empty configs key =
     (case map_of configs key of None \<Rightarrow> True | Some v \<Rightarrow> v = [])"

text \<open>The lengths that occur among the non-empty account lists.\<close>

definition non_empty_lengths :: "accounts_dict \<Rightarrow> nat set" where
  "non_empty_lengths configs =
     set (map (length \<circ> snd) (filter (\<lambda>(k, v). v \<noteq> []) configs))"

text \<open>The required keys, none when the argument is \<open>None\<close>.\<close>

definition required_list :: "string list option \<Rightarrow> string list" where
  "required_list required_keys = (case required_keys of None \<Rightarrow> [] | Some keys \<Rightarrow> keys)"

text \<open>A remote credential: the config value if set, otherwise the environment variable.\<close>

definition credential :: "storage_manager \<Rightarrow> world \<Rightarrow> string \<Rightarrow> string \<Rightarrow> string option" where
  "credential m w key env_key =
     (case remote_config m key of
        None \<Rightarrow> environ w env_key
      | Some v \<Rightarrow> if v = [] then environ w env_key else Some v)"

text \<open>A credential is present when that value is a non-empty string.\<close>

definition credential_present :: "storage_manager \<Rightarrow> world \<Rightarrow> string \<Rightarrow> string \<Rightarrow> bool" where
  "credential_present m w key env_key =
     (case credential m w key env_key of None \<Rightarrow> False | Some v \<Rightarrow> v \<noteq> [])"

text \<open>The events of a run that hand a notification to the dispatcher, and those that
  notify or record a push.\<close>

fun is_dispatch :: "event \<Rightarrow> bool" where
  "is_dispatch (Dispatched _ _) = True"
| "is_dispatch _ = False"

fun is_notification :: "event \<Rightarrow> bool" where
  "is_notification (Dispatched _ _) = True"
| "is_notification (PushRecorded _) = True"
| "is_notification _ = False"

definition dispatches :: "run_state \<Rightarrow> event list" where
  "dispatches st = filter is_dispatch (events st)"

definition notifications :: "run_state \<Rightarrow> event list" where
  "notifications st = filter is_notification (events st)"





text \<open>Two run states that agree on the push record and on the notifications logged.\<close>

definition same_notifications :: "run_state \<Rightarrow> run_state \<Rightarrow> bool" where
  "same_notifications s s' =
     (pushed_today s = pushed_today s' \<and> notifications s = notifications s')"


section \<open>Concrete inputs\<close>

text \<open>
  A configuration with one webhook, a context whose crawl finds title \<open>X\<close> on platform
  \<open>P1\<close>, already seen earlier in the day and matching keyword group \<open>G\<close>, and
  variations of it.
\<close>

definition sample_config :: "string \<Rightarrow> config" where
  "sample_config mode = \<lparr>REPORT_MODE = mode, ENABLE_NOTIFICATION = True,
     FEISHU_WEBHOOK_URL = ''https://hook.example/1'', DINGTALK_WEBHOOK_URL = [],
     WEWORK_WEBHOOK_URL = [], TELEGRAM_BOT_TOKEN = [], TELEGRAM_CHAT_ID = [],
     EMAIL_FROM = [], EMAIL_PASSWORD = [], EMAIL_TO = [], NTFY_SERVER_URL = [],
     NTFY_TOPIC = [], BARK_URL = [], SLACK_WEBHOOK_URL = [],
     PUSH_WINDOW_ENABLED = False, PUSH_WINDOW_ONCE_PER_DAY = False,
     PUSH_WINDOW_TIME_RANGE_START = ''08:00'', PUSH_WINDOW_TIME_RANGE_END = ''22:00'',
     STORAGE_FORMATS_HTML = True, STORAGE_FORMATS_TXT = False, SHOW_VERSION_UPDATE = False\<rparr>"

definition sample_ctx :: "string \<Rightarrow> app_context" where
  "sample_ctx mode = \<lparr>config = sample_config mode,
     crawl_websites = ([(''P1'', [''X''])], []),
     save_news_data = True,
     read_today_titles = Inr [(''P1'', [''X''])],
     detect_new_titles = Some [(''P1'', [])],
     count_frequency = (\<lambda>data_source mode new_titles. ([\<lparr>word = ''G'', count = 1\<rparr>], 1)),
     generate_html = (\<lambda>stats total_titles mode is_daily_summary. Some ''index.html''),
     is_in_time_range = (\<lambda>start end. True),
     dispatch_all = (\<lambda>stats new_titles report_type mode. [(''feishu'', True)])\<rparr>"

definition sample_analyzer :: "string \<Rightarrow> news_analyzer" where
  "sample_analyzer mode = news_analyzer_init (sample_ctx mode)"

definition fresh_state :: run_state where
  "fresh_state = \<lparr>pushed_today = False, events = []\<rparr>"

definition once_per_day_analyzer :: news_analyzer where
  "once_per_day_analyzer =
     news_analyzer_init
       ((sample_ctx ''current'')\<lparr>config := (sample_config ''current'')
            \<lparr>PUSH_WINDOW_ENABLED := True, PUSH_WINDOW_ONCE_PER_DAY := True\<rparr>\<rparr>)"

definition broken_storage_analyzer :: news_analyzer where
  "broken_storage_analyzer =
     news_analyzer_init ((sample_ctx ''current'')\<lparr>read_today_titles := Inr []\<rparr>)"

definition failing_channels_analyzer :: news_analyzer where
  "failing_channels_analyzer =
     news_analyzer_init
       ((sample_ctx ''current'')\<lparr>crawl_websites := ([], [''P1'']),
          dispatch_all := (\<lambda>stats new_titles report_type mode. [(''feishu'', False)])\<rparr>)"

text \<open>
  A manager with half of the remote credentials in its config, and a CI environment
  holding the other half; the local directory and the remote store hold two day-buckets
  each, one of them ten days old.
\<close>

definition sample_manager :: "string \<Rightarrow> storage_manager" where
  "sample_manager type = \<lparr>backend_type = type, data_dir = ''output'', enable_txt = True,
     enable_html = True,
     remote_config = [''bucket_name'' \<mapsto> ''news'', ''access_key_id'' \<mapsto> ''AK''],
     local_retention_days = 7, remote_retention_days = 0,
     pull_enabled = False, pull_days = 0, timezone = ''America/New_York'',
     priv_backend = None, priv_remote_backend = None\<rparr>"

definition sample_world :: "py_error option \<Rightarrow> world" where
  "sample_world raises = \<lparr>
     environ = [''GITHUB_ACTIONS'' \<mapsto> ''true'', ''S3_BUCKET_NAME'' \<mapsto> ''other'',
                ''S3_SECRET_ACCESS_KEY'' \<mapsto> ''SK'', ''S3_ENDPOINT_URL'' \<mapsto> ''https://s3.example''],
     remote_constructor_raises = raises, local_constructor_raises = None,
     local_store = [1, 10], remote_store = [3, 10]\<rparr>"

lemmas sample_defs = sample_analyzer_def once_per_day_analyzer_def broken_storage_analyzer_def
  failing_channels_analyzer_def news_analyzer_init_def sample_ctx_def sample_config_def
  fresh_state_def

lemmas run_defs = run_def crawl_data_def execute_mode_strategy_def get_mode_strategy_def
  MODE_STRATEGIES_def incremental_strategy_def current_strategy_def daily_strategy_def
  run_analysis_pipeline_def send_notification_if_needed_def generate_summary_html_def
  generate_summary_report_def load_analysis_data_def has_valid_content_def has_new_titles_def
  has_notification_configured_def log_event_def Let_def


section \<open>Properties of core/config.py\<close>

subsection \<open>Splitting a joined string\<close>

lemma split_scan_no_separator:
  "c \<notin> set x \<Longrightarrow> split_scan [c] cur (x @ rest) = split_scan [c] (cur @ x) rest"
  by (induction x arbitrary: cur) auto

lemma split_scan_join:
  "\<forall>y \<in> set (x # xs). c \<notin> set y \<Longrightarrow> split_scan [c] cur (join [c] (x # xs)) = (cur @ x) # xs"
proof (induction xs arbitrary: x cur)
  case Nil
  then show ?case using split_scan_no_separator [of c x cur "[]"] by simp
next
  case (Cons y ys)
  have "split_scan [c] cur (join [c] (x # y # ys))
        = split_scan [c] (cur @ x) (c # join [c] (y # ys))"
    using Cons.prems split_scan_no_separator [of c x cur "c # join [c] (y # ys)"] by simp
  also have "\<dots> = (cur @ x) # split_scan [c] [] (join [c] (y # ys))" by simp
  also have "\<dots> = (cur @ x) # y # ys" using Cons.IH [of y "[]"] Cons.prems by simp
  finally show ?case .
qed

lemma strip_Nil: "strip [] = []"
  by (simp add: strip_def)

lemma join_Nil_blank: "join sep xs = [] \<Longrightarrow> x \<in> set xs \<Longrightarrow> x = []"
  by (induction sep xs rule: join.induct) auto

lemma parse_join:
  assumes "\<forall>x \<in> set xs. c \<notin> set x"
  shows "parse_multi_account_config (join [c] xs) [c]
         = Inr (if \<forall>x \<in> set xs. strip x = [] then [] else map strip xs)"
proof (cases "join [c] xs = []")
  case True
  then have "\<forall>x \<in> set xs. strip x = []" using join_Nil_blank strip_Nil by metis
  with True show ?thesis by (simp add: parse_multi_account_config_def)
next
  case False
  then obtain y ys where xs: "xs = y # ys" by (cases xs) auto
  have "split_scan [c] [] (join [c] xs) = xs"
    using split_scan_join [of y ys c "[]"] assms xs by simp
  then show ?thesis using False
    by (auto simp: parse_multi_account_config_def split_def list_all_iff)
qed

text \<open>
  C8. Parsing the empty string gives the empty list, and \<open>a;;c\<close> parses to the three
  values \<open>a\<close>, the empty placeholder and \<open>c\<close>. In general, for account values \<open>xs\<close> none
  of which contains the separator character, parsing the string that joins them with
  the separator gives back the values in order, each stripped of surrounding
  whitespace and the empty ones kept in their positions, unless every value is blank,
  in which case the string is entirely empty and the result is the empty list.
\<close>

theorem parse_multi_account_config_delimited:
  "parse_multi_account_config [] separator = Inr []
   \<and> parse_multi_account_config ''a;;c'' '';'' = Inr [''a'', [], ''c'']
   \<and> ((\<forall>x \<in> set xs. c \<notin> set x) \<longrightarrow>
        parse_multi_account_config (join [c] xs) [c]
        = Inr (if \<forall>x \<in> set xs. strip x = [] then [] else map strip xs))"
proof (intro conjI impI)
  show "parse_multi_account_config [] separator = Inr []"
    by (simp add: parse_multi_account_config_def)
next
  have "\<forall>x \<in> set [''a'', [], ''c'']. CHR '';'' \<notin> set x" by simp
  from parse_join [OF this]
  show "parse_multi_account_config ''a;;c'' '';'' = Inr [''a'', [], ''c'']"
    by (simp add: strip_def isspace_def)
next
  assume "\<forall>x \<in> set xs. c \<notin> set x"
  then show "parse_multi_account_config (join [c] xs) [c]
             = Inr (if \<forall>x \<in> set xs. strip x = [] then [] else map strip xs)"
    by (rule parse_join)
qed

theorem parse_multi_account_config_delimited_witness:
  "parse_multi_account_config '';token2;'' '';'' = Inr [[], ''token2'', []]
   \<and> parse_multi_account_config '';;'' '';'' = Inr []"
proof -
  have h1: "\<forall>x \<in> set [[], ''token2'', []]. CHR '';'' \<notin> set x" by simp
  have h2: "\<forall>x \<in> set [[], [], []]. CHR '';'' \<notin> set x" by simp
  have c1: "parse_multi_account_config '';token2;'' '';'' = Inr [[], ''token2'', []]"
    using parse_multi_account_config_delimited [of "[]" "[[], ''token2'', []]" "CHR '';''"] h1
    by (simp add: strip_def isspace_def)
  have c2: "parse_multi_account_config '';;'' '';'' = Inr []"
    using parse_multi_account_config_delimited [of "[]" "[[], [], []]" "CHR '';''"] h2
    by (simp add: strip_def)
  show ?thesis using c1 c2 by simp
qed


subsection \<open>Paired account lists\<close>

lemma required_missing_iff:
  assumes "\<forall>(k, v) \<in> set ne. v \<noteq> []"
  shows "required_missing ne keys \<longleftrightarrow> (\<exists>key \<in> set keys. key \<notin> fst ` set ne)"
proof (induction keys)
  case Nil
  show ?case by simp
next
  case (Cons key keys)
  have step: "(key \<notin> set (map fst ne)
               \<or> (case map_of ne key of None \<Rightarrow> True | Some v \<Rightarrow> v = []))
              \<longleftrightarrow> key \<notin> fst ` set ne"
  proof (cases "key \<in> fst ` set ne")
    case True
    then obtain v where v: "map_of ne key = Some v"
      by (metis domD dom_map_of_conv_image_fst)
    then have "(key, v) \<in> set ne" by (rule map_of_SomeD)
    then have "v \<noteq> []" using assms by auto
    with True v show ?thesis by simp
  next
    case False
    then show ?thesis by simp
  qed
  show ?case using Cons.IH step by simp
qed

lemma not_in_non_empty_iff:
  assumes "distinct (map fst configs)"
  shows "key \<notin> fst ` set (filter (\<lambda>(k, v). v \<noteq> []) configs) \<longleftrightarrow> account_list_empty configs key"
proof (cases "map_of configs key")
  case None
  then have "key \<notin> fst ` set configs" by (simp add: map_of_eq_None_iff)
  then have "key \<notin> fst ` set (filter (\<lambda>(k, v). v \<noteq> []) configs)" by auto
  with None show ?thesis by (simp add: account_list_empty_def)
next
  case (Some v)
  have mem: "\<And>w. (key, w) \<in> set configs \<longleftrightarrow> w = v"
    using assms Some by (metis map_of_SomeD map_of_is_SomeI option.inject)
  have "key \<in> fst ` set (filter (\<lambda>(k, v). v \<noteq> []) configs) \<longleftrightarrow> v \<noteq> []"
    using mem by (auto simp: image_iff)
  with Some show ?thesis by (simp add: account_list_empty_def)
qed

lemma unique_lengths_set:
  "set (remdups (map snd (map (\<lambda>(k, v). (k, int (length v))) (filter (\<lambda>(k, v). v \<noteq> []) configs))))
   = int ` non_empty_lengths configs"
  by (auto simp: non_empty_lengths_def image_iff split: prod.splits) force+

lemma unique_lengths_card:
  "length (remdups (map snd (map (\<lambda>(k, v). (k, int (length v))) (filter (\<lambda>(k, v). v \<noteq> []) configs))))
   = card (non_empty_lengths configs)"
proof -
  have "length (remdups (map snd (map (\<lambda>(k, v). (k, int (length v))) (filter (\<lambda>(k, v). v \<noteq> []) configs))))
        = card (int ` non_empty_lengths configs)"
    using unique_lengths_set [of configs] by (metis length_remdups_card_conv set_remdups)
  also have "\<dots> = card (non_empty_lengths configs)"
    by (rule card_image) simp
  finally show ?thesis .
qed


lemma singleton_list: "length xs = 1 \<Longrightarrow> set xs = {a} \<Longrightarrow> xs = [a]"
  by (cases xs) auto

lemma required_check_iff:
  assumes "distinct (map fst configs)"
  shows "(case required_keys of None \<Rightarrow> False
          | Some keys \<Rightarrow> keys \<noteq> [] \<and> required_missing (filter (\<lambda>(k, v). v \<noteq> []) configs) keys)
         \<longleftrightarrow> (\<exists>key \<in> set (required_list required_keys). account_list_empty configs key)"
proof -
  have ne: "\<forall>(k, v) \<in> set (filter (\<lambda>(k, v). v \<noteq> []) configs). v \<noteq> []" by auto
  show ?thesis
    using required_missing_iff [OF ne] not_in_non_empty_iff [OF assms]
    by (cases required_keys) (auto simp: required_list_def)
qed

lemma no_non_empty_lengths:
  "filter (\<lambda>(k, v). v \<noteq> []) configs = [] \<longleftrightarrow> non_empty_lengths configs = {}"
  by (auto simp: non_empty_lengths_def filter_empty_conv)

text \<open>
  C7. For a configs dict (each key once): when some required key has an empty account
  list, absent keys included, the result is \<open>(True, 0)\<close>; failing that, when the
  non-empty account lists have two or more distinct lengths, the result is
  \<open>(False, 0)\<close>; otherwise the result is \<open>(True, n)\<close> with \<open>n\<close> the length shared by
  every non-empty list, and \<open>n = 0\<close> when all lists are empty.
\<close>

theorem validate_paired_configs_cases:
  assumes "distinct (map fst configs)"
  shows "((\<exists>key \<in> set (required_list required_keys). account_list_empty configs key)
            \<longrightarrow> validate_paired_configs configs required_keys = (True, 0))
       \<and> (\<not> (\<exists>key \<in> set (required_list required_keys). account_list_empty configs key)
            \<and> card (non_empty_lengths configs) \<ge> 2
            \<longrightarrow> validate_paired_configs configs required_keys = (False, 0))
       \<and> (\<not> (\<exists>key \<in> set (required_list required_keys). account_list_empty configs key)
            \<and> card (non_empty_lengths configs) < 2
            \<longrightarrow> (\<exists>n. validate_paired_configs configs required_keys = (True, int n)
                   \<and> (\<forall>(k, v) \<in> set configs. v \<noteq> [] \<longrightarrow> length v = n)
                   \<and> (list_all (\<lambda>(k, v). v = []) configs \<longrightarrow> n = 0)))"
proof (intro conjI impI)
  assume "\<exists>key \<in> set (required_list required_keys). account_list_empty configs key"
  then show "validate_paired_configs configs required_keys = (True, 0)"
    using required_check_iff [OF assms, of required_keys]
    by (simp add: validate_paired_configs_def Let_def)
next
  assume a: "\<not> (\<exists>key \<in> set (required_list required_keys). account_list_empty configs key)
             \<and> card (non_empty_lengths configs) \<ge> 2"
  then have "non_empty_lengths configs \<noteq> {}" by auto
  then have "filter (\<lambda>(k, v). v \<noteq> []) configs \<noteq> []" using no_non_empty_lengths by blast
  then show "validate_paired_configs configs required_keys = (False, 0)"
    using a required_check_iff [OF assms, of required_keys] unique_lengths_card [of configs]
    by (simp add: validate_paired_configs_def Let_def)
next
  assume a: "\<not> (\<exists>key \<in> set (required_list required_keys). account_list_empty configs key)
             \<and> card (non_empty_lengths configs) < 2"
  show "\<exists>n. validate_paired_configs configs required_keys = (True, int n)
            \<and> (\<forall>(k, v) \<in> set configs. v \<noteq> [] \<longrightarrow> length v = n)
            \<and> (list_all (\<lambda>(k, v). v = []) configs \<longrightarrow> n = 0)"
  proof (cases "filter (\<lambda>(k, v). v \<noteq> []) configs = []")
    case True
    then have "\<forall>(k, v) \<in> set configs. v = []" by (auto simp: filter_empty_conv)
    with True show ?thesis
      by (intro exI [of _ 0]) (auto simp: validate_paired_configs_def)
  next
    case False
    let ?u = "remdups (map snd (map (\<lambda>(k, v). (k, int (length v))) (filter (\<lambda>(k, v). v \<noteq> []) configs)))"
    have fin: "finite (non_empty_lengths configs)" by (simp add: non_empty_lengths_def)
    have "non_empty_lengths configs \<noteq> {}" using False no_non_empty_lengths by blast
    then have "card (non_empty_lengths configs) = 1" using a fin
      by (metis One_nat_def Suc_1 card_gt_0_iff less_Suc_eq less_one not_less_eq)
    then obtain n where n: "non_empty_lengths configs = {n}" by (auto simp: card_1_singleton_iff)
    have len: "length ?u = 1" using unique_lengths_card [of configs] n by simp
    have "set ?u = {int n}" using unique_lengths_set [of configs] n by simp
    with len have u: "?u = [int n]" by (rule singleton_list)
    have all: "\<forall>(k, v) \<in> set configs. v \<noteq> [] \<longrightarrow> length v = n"
    proof (clarify)
      fix k v assume "(k, v) \<in> set configs" "v \<noteq> []"
      then have "length v \<in> non_empty_lengths configs"
        by (force simp: non_empty_lengths_def)
      with n show "length v = n" by simp
    qed
    have "validate_paired_configs configs required_keys = (True, int n)"
      using a False required_check_iff [OF assms, of required_keys] u
      by (simp add: validate_paired_configs_def Let_def)
    moreover have "list_all (\<lambda>(k, v). v = []) configs \<longrightarrow> n = 0"
      using False by (auto simp: list_all_iff filter_empty_conv)
    ultimately show ?thesis using all by blast
  qed
qed

theorem validate_paired_configs_cases_witness:
  "validate_paired_configs [(''token'', [''t1'', ''t2'']), (''chat'', [])] (Some [''token'', ''chat'']) = (True, 0)
   \<and> validate_paired_configs [(''token'', [''t1'', ''t2'']), (''chat'', [''c1''])] (Some [''token'', ''chat'']) = (False, 0)
   \<and> validate_paired_configs [(''token'', [''t1'', ''t2'']), (''chat'', [''c1'', ''c2''])] (Some [''token'', ''chat'']) = (True, 2)"
proof -
  let ?rk = "Some [''token'', ''chat'']"
  let ?A = "[(''token'', [''t1'', ''t2'']), (''chat'', [])]"
  let ?B = "[(''token'', [''t1'', ''t2'']), (''chat'', [''c1''])]"
  let ?C = "[(''token'', [''t1'', ''t2'']), (''chat'', [''c1'', ''c2''])]"
  have dA: "distinct (map fst ?A)" and dB: "distinct (map fst ?B)" and dC: "distinct (map fst ?C)"
    by simp_all
  have hA: "\<exists>key \<in> set (required_list ?rk). account_list_empty ?A key"
    by (simp add: required_list_def account_list_empty_def)
  have hB: "\<not> (\<exists>key \<in> set (required_list ?rk). account_list_empty ?B key)
            \<and> card (non_empty_lengths ?B) \<ge> 2"
    by (simp add: required_list_def account_list_empty_def non_empty_lengths_def)
  have hC: "\<not> (\<exists>key \<in> set (required_list ?rk). account_list_empty ?C key)
            \<and> card (non_empty_lengths ?C) < 2"
    by (simp add: required_list_def account_list_empty_def non_empty_lengths_def)
  have c1: "validate_paired_configs ?A ?rk = (True, 0)"
    using validate_paired_configs_cases [OF dA, of ?rk] hA by blast
  have c2: "validate_paired_configs ?B ?rk = (False, 0)"
    using validate_paired_configs_cases [OF dB, of ?rk] hB by blast
  obtain n where n: "validate_paired_configs ?C ?rk = (True, int n)"
      and all: "\<forall>(k, v) \<in> set ?C. v \<noteq> [] \<longrightarrow> length v = n"
    using validate_paired_configs_cases [OF dC, of ?rk] hC by blast
  from all have "n = 2" by simp
  with n have c3: "validate_paired_configs ?C ?rk = (True, 2)" by simp
  show ?thesis using c1 c2 c3 by simp
qed


section \<open>Properties of storage/manager.py\<close>

lemma has_remote_config_iff:
  "has_remote_config m w \<longleftrightarrow>
     credential_present m w ''bucket_name'' ''S3_BUCKET_NAME''
     \<and> credential_present m w ''access_key_id'' ''S3_ACCESS_KEY_ID''
     \<and> credential_present m w ''secret_access_key'' ''S3_SECRET_ACCESS_KEY''
     \<and> credential_present m w ''endpoint_url'' ''S3_ENDPOINT_URL''"
  by (simp add: has_remote_config_def credential_present_def credential_def py_or_def truthy_def
      Let_def split: option.splits)

text \<open>
  C4. With backend type \<open>auto\<close> the resolved type is \<open>remote\<close> exactly when
  \<open>GITHUB_ACTIONS\<close> is \<open>true\<close> and the bucket name, access key, secret key and
  endpoint are all present, each read from the remote config if set there and from its
  environment variable otherwise; in every other case it is \<open>local\<close>. Any other
  configured type is returned unchanged.
\<close>

theorem resolve_backend_type_auto:
  "(backend_type m = ''auto'' \<longrightarrow>
      resolve_backend_type m w
      = (if environ w ''GITHUB_ACTIONS'' = Some ''true''
            \<and> credential_present m w ''bucket_name'' ''S3_BUCKET_NAME''
            \<and> credential_present m w ''access_key_id'' ''S3_ACCESS_KEY_ID''
            \<and> credential_present m w ''secret_access_key'' ''S3_SECRET_ACCESS_KEY''
            \<and> credential_present m w ''endpoint_url'' ''S3_ENDPOINT_URL''
         then ''remote'' else ''local''))
   \<and> (backend_type m \<noteq> ''auto'' \<longrightarrow> resolve_backend_type m w = backend_type m)"
  using has_remote_config_iff [of m w]
  by (simp add: resolve_backend_type_def is_github_actions_def)

theorem resolve_backend_type_auto_witness:
  "resolve_backend_type (sample_manager ''auto'') (sample_world None) = ''remote''
   \<and> credential (sample_manager ''auto'') (sample_world None) ''bucket_name'' ''S3_BUCKET_NAME'' = Some ''news''
   \<and> resolve_backend_type (sample_manager ''auto'')
        ((sample_world None)\<lparr>environ := [''GITHUB_ACTIONS'' \<mapsto> ''true'']\<rparr>) = ''local''
   \<and> resolve_backend_type (sample_manager ''local'') (sample_world None) = ''local''"
proof -
  have c1: "resolve_backend_type (sample_manager ''auto'') (sample_world None) = ''remote''"
    using resolve_backend_type_auto [of "sample_manager ''auto''" "sample_world None"]
    by (simp add: sample_manager_def sample_world_def credential_present_def credential_def)
  have c2: "resolve_backend_type (sample_manager ''auto'')
        ((sample_world None)\<lparr>environ := [''GITHUB_ACTIONS'' \<mapsto> ''true'']\<rparr>) = ''local''"
    using resolve_backend_type_auto [of "sample_manager ''auto''"
        "(sample_world None)\<lparr>environ := [''GITHUB_ACTIONS'' \<mapsto> ''true'']\<rparr>"]
    by (simp add: sample_manager_def sample_world_def credential_present_def credential_def)
  have c3: "resolve_backend_type (sample_manager ''local'') (sample_world None) = ''local''"
    using resolve_backend_type_auto [of "sample_manager ''local''" "sample_world None"]
    by (simp add: sample_manager_def)
  have c4: "credential (sample_manager ''auto'') (sample_world None) ''bucket_name'' ''S3_BUCKET_NAME'' = Some ''news''"
    by (simp add: sample_manager_def credential_def)
  show ?thesis using c1 c2 c3 c4 by simp
qed

lemma create_remote_backend_raises:
  "remote_constructor_raises w = Some e \<Longrightarrow> create_remote_backend m w = None"
  by (cases e) (simp_all add: create_remote_backend_def new_remote_backend_def)

text \<open>
  C5. Whenever the Local constructor itself does not raise, \<open>get_backend\<close> returns a
  backend, in every manager state. With nothing memoised, a resolved type \<open>remote\<close>
  and a Remote construction that raises (import or constructor), it constructs the Local
  backend, memoises it and returns it. No exception of the Remote construction leaves
  \<open>get_backend\<close>: one that does leave is the Local constructor's own.
\<close>

theorem get_backend_falls_back_to_local:
  "(local_constructor_raises w = None \<longrightarrow> (\<exists>b m'. get_backend m w = Inr (b, m')))
   \<and> (priv_backend m = None \<and> resolve_backend_type m w = ''remote''
        \<and> remote_constructor_raises w \<noteq> None \<and> local_constructor_raises w = None
      \<longrightarrow> get_backend m w
          = Inr (LocalStorageBackend (data_dir m) (enable_txt m) (enable_html m) (timezone m),
                 m\<lparr>priv_backend :=
                      Some (LocalStorageBackend (data_dir m) (enable_txt m) (enable_html m) (timezone m))\<rparr>))
   \<and> (\<forall>e. get_backend m w = Inl e \<longrightarrow> local_constructor_raises w = Some e)"
proof (intro conjI impI allI)
  assume "local_constructor_raises w = None"
  then show "\<exists>b m'. get_backend m w = Inr (b, m')"
    by (cases "remote_constructor_raises w")
       (auto simp: get_backend_def Let_def new_local_backend_def create_remote_backend_def
          new_remote_backend_def split: option.splits)
next
  assume a: "priv_backend m = None \<and> resolve_backend_type m w = ''remote''
        \<and> remote_constructor_raises w \<noteq> None \<and> local_constructor_raises w = None"
  then obtain e where "remote_constructor_raises w = Some e" by auto
  then have "create_remote_backend m w = None" by (rule create_remote_backend_raises)
  with a show "get_backend m w
          = Inr (LocalStorageBackend (data_dir m) (enable_txt m) (enable_html m) (timezone m),
                 m\<lparr>priv_backend :=
                      Some (LocalStorageBackend (data_dir m) (enable_txt m) (enable_html m) (timezone m))\<rparr>)"
    by (simp add: get_backend_def Let_def new_local_backend_def)
next
  fix e assume "get_backend m w = Inl e"
  then show "local_constructor_raises w = Some e"
    by (auto simp: get_backend_def Let_def new_local_backend_def
          split: option.splits if_splits prod.splits)
qed

theorem get_backend_falls_back_to_local_witness:
  "resolve_backend_type (sample_manager ''auto'') (sample_world (Some ImportError)) = ''remote''
   \<and> get_backend (sample_manager ''auto'') (sample_world (Some ImportError))
     = Inr (LocalStorageBackend ''output'' True True ''America/New_York'',
            (sample_manager ''auto'')\<lparr>priv_backend :=
               Some (LocalStorageBackend ''output'' True True ''America/New_York'')\<rparr>)
   \<and> get_backend (sample_manager ''auto'')
        ((sample_world (Some ImportError))\<lparr>local_constructor_raises := Some (OtherException ''disk'')\<rparr>)
     \<noteq> Inl ImportError"
proof -
  let ?w = "sample_world (Some ImportError)"
  let ?w' = "?w\<lparr>local_constructor_raises := Some (OtherException ''disk'')\<rparr>"
  have r: "resolve_backend_type (sample_manager ''auto'') ?w = ''remote''"
    by (simp add: resolve_backend_type_def is_github_actions_def has_remote_config_def
        py_or_def truthy_def sample_manager_def sample_world_def)
  have h: "priv_backend (sample_manager ''auto'') = None
           \<and> remote_constructor_raises ?w \<noteq> None
           \<and> local_constructor_raises ?w = None"
    by (simp add: sample_manager_def sample_world_def)
  have c1: "get_backend (sample_manager ''auto'') ?w
     = Inr (LocalStorageBackend ''output'' True True ''America/New_York'',
            (sample_manager ''auto'')\<lparr>priv_backend :=
               Some (LocalStorageBackend ''output'' True True ''America/New_York'')\<rparr>)"
    using get_backend_falls_back_to_local [of ?w "sample_manager ''auto''"] r h
    by (simp add: sample_manager_def)
  have l: "local_constructor_raises ?w' \<noteq> Some ImportError" by simp
  have c2: "get_backend (sample_manager ''auto'') ?w' \<noteq> Inl ImportError"
    using get_backend_falls_back_to_local [of ?w' "sample_manager ''auto''"] l by blast
  show ?thesis using r c1 c2 by simp
qed

text \<open>
  C2. With the Remote backend active, a local retention of 7 days and a remote retention
  of 0, \<open>cleanup_old_data\<close> returns 1: the remote store loses its ten-day-old bucket
  although its retention is 0, and the local directory keeps its ten-day-old bucket
  although it is older than the local retention. The local retention is applied to
  whichever backend \<open>get_backend\<close> returns.
\<close>

theorem cleanup_old_data_remote_active:
  "cleanup_old_data (sample_manager ''remote'') (sample_world None)
   = Inr (1,
          (sample_manager ''remote'')\<lparr>priv_backend :=
             Some (RemoteStorageBackend ''news'' ''AK'' ''SK'' ''https://s3.example'' [] True True
                     ''America/New_York'')\<rparr>,
          (sample_world None)\<lparr>remote_store := [3]\<rparr>)"
  by (simp add: cleanup_old_data_def get_backend_def resolve_backend_type_def
      create_remote_backend_def new_remote_backend_def config_or_environ_def py_or_def truthy_def
      expire_def has_remote_config_def sample_manager_def sample_world_def Let_def)


section \<open>Properties of __main__.py\<close>

subsection \<open>The content gate and the push window\<close>

lemma list_ex_count: "list_ex (\<lambda>stat. count stat > 0) stats \<longleftrightarrow> (\<exists>s \<in> set stats. count s > 0)"
  by (simp add: list_ex_iff)

lemma has_new_titles_iff:
  "has_new_titles new_titles \<longleftrightarrow> (\<exists>d. new_titles = Some d \<and> (\<exists>(platform, titles) \<in> set d. titles \<noteq> []))"
  by (cases new_titles) (force simp: has_new_titles_def list_ex_iff)+

text \<open>
  C1. The content gate follows the mode table. In incremental mode it passes exactly when
  some platform has a non-empty list of new titles and some statistic has a positive
  count; in current mode exactly when some statistic has a positive count; in daily mode
  exactly when some statistic has a positive count or some platform has a non-empty list
  of new titles. In particular, incremental mode without new titles never passes,
  whatever the statistics.
\<close>

theorem has_valid_content_mode_table:
  "(report_mode a = ''incremental'' \<longrightarrow>
      has_valid_content a stats new_titles
      = ((\<exists>d. new_titles = Some d \<and> (\<exists>(platform, titles) \<in> set d. titles \<noteq> []))
         \<and> (\<exists>s \<in> set stats. count s > 0)))
   \<and> (report_mode a = ''current'' \<longrightarrow>
      has_valid_content a stats new_titles = (\<exists>s \<in> set stats. count s > 0))
   \<and> (report_mode a = ''daily'' \<longrightarrow>
      has_valid_content a stats new_titles
      = ((\<exists>s \<in> set stats. count s > 0)
         \<or> (\<exists>d. new_titles = Some d \<and> (\<exists>(platform, titles) \<in> set d. titles \<noteq> []))))
   \<and> (report_mode a = ''incremental''
        \<and> \<not> (\<exists>d. new_titles = Some d \<and> (\<exists>(platform, titles) \<in> set d. titles \<noteq> []))
      \<longrightarrow> \<not> has_valid_content a stats new_titles)"
  unfolding has_valid_content_def Let_def list_ex_count has_new_titles_iff by auto

theorem has_valid_content_mode_table_witness:
  "\<not> has_valid_content (sample_analyzer ''incremental'') [\<lparr>word = ''G'', count = 1\<rparr>] (Some [(''P1'', [])])
   \<and> has_valid_content (sample_analyzer ''incremental'') [\<lparr>word = ''G'', count = 1\<rparr>] (Some [(''P1'', [''X''])])
   \<and> has_valid_content (sample_analyzer ''current'') [\<lparr>word = ''G'', count = 1\<rparr>] None
   \<and> has_valid_content (sample_analyzer ''daily'') [\<lparr>word = ''G'', count = 0\<rparr>] (Some [(''P1'', [''X''])])"
proof -
  have c1: "\<not> has_valid_content (sample_analyzer ''incremental'') [\<lparr>word = ''G'', count = 1\<rparr>] (Some [(''P1'', [])])"
    using has_valid_content_mode_table [of "sample_analyzer ''incremental''" "[\<lparr>word = ''G'', count = 1\<rparr>]" "Some [(''P1'', [])]"]
    by (simp add: sample_defs)
  have c2: "has_valid_content (sample_analyzer ''incremental'') [\<lparr>word = ''G'', count = 1\<rparr>] (Some [(''P1'', [''X''])])"
    using has_valid_content_mode_table [of "sample_analyzer ''incremental''" "[\<lparr>word = ''G'', count = 1\<rparr>]" "Some [(''P1'', [''X''])]"]
    by (simp add: sample_defs)
  have c3: "has_valid_content (sample_analyzer ''current'') [\<lparr>word = ''G'', count = 1\<rparr>] None"
    using has_valid_content_mode_table [of "sample_analyzer ''current''" "[\<lparr>word = ''G'', count = 1\<rparr>]" None]
    by (simp add: sample_defs)
  have c4: "has_valid_content (sample_analyzer ''daily'') [\<lparr>word = ''G'', count = 0\<rparr>] (Some [(''P1'', [''X''])])"
    using has_valid_content_mode_table [of "sample_analyzer ''daily''" "[\<lparr>word = ''G'', count = 0\<rparr>]" "Some [(''P1'', [''X''])]"]
    by (simp add: sample_defs)
  show ?thesis using c1 c2 c3 c4 by simp
qed

text \<open>
  C6. With the push window enabled in once-per-day mode and a push already recorded for
  the day, the send function returns \<open>False\<close> and leaves the run state as it was, so
  nothing is dispatched: for every content, every report type and whatever the time
  range test answers.
\<close>

theorem push_window_once_per_day_denies:
  assumes "PUSH_WINDOW_ENABLED (config (ctx a))"
      and "PUSH_WINDOW_ONCE_PER_DAY (config (ctx a))"
      and "pushed_today st"
  shows "send_notification_if_needed a stats report_type mode new_titles st = (False, st)"
  using assms by (simp add: send_notification_if_needed_def Let_def)

theorem push_window_once_per_day_denies_witness:
  "has_valid_content once_per_day_analyzer [\<lparr>word = ''G'', count = 1\<rparr>] None
   \<and> is_in_time_range (ctx once_per_day_analyzer) ''08:00'' ''22:00''
   \<and> send_notification_if_needed once_per_day_analyzer [\<lparr>word = ''G'', count = 1\<rparr>]
        ''Real-time Current Rankings'' ''current'' None \<lparr>pushed_today = True, events = []\<rparr>
      = (False, \<lparr>pushed_today = True, events = []\<rparr>)
   \<and> fst (send_notification_if_needed once_per_day_analyzer [\<lparr>word = ''G'', count = 1\<rparr>]
        ''Real-time Current Rankings'' ''current'' None \<lparr>pushed_today = False, events = []\<rparr>)"
proof -
  have e: "PUSH_WINDOW_ENABLED (config (ctx once_per_day_analyzer))"
    and d: "PUSH_WINDOW_ONCE_PER_DAY (config (ctx once_per_day_analyzer))"
    and p: "pushed_today \<lparr>pushed_today = True, events = []\<rparr>"
    by (simp_all add: sample_defs)
  have denied: "send_notification_if_needed once_per_day_analyzer [\<lparr>word = ''G'', count = 1\<rparr>]
        ''Real-time Current Rankings'' ''current'' None \<lparr>pushed_today = True, events = []\<rparr>
      = (False, \<lparr>pushed_today = True, events = []\<rparr>)"
    by (rule push_window_once_per_day_denies [OF e d p])
  have rest: "has_valid_content once_per_day_analyzer [\<lparr>word = ''G'', count = 1\<rparr>] None
   \<and> is_in_time_range (ctx once_per_day_analyzer) ''08:00'' ''22:00''
   \<and> fst (send_notification_if_needed once_per_day_analyzer [\<lparr>word = ''G'', count = 1\<rparr>]
        ''Real-time Current Rankings'' ''current'' None \<lparr>pushed_today = False, events = []\<rparr>)"
    by (simp add: sample_defs
        send_notification_if_needed_def has_valid_content_def has_notification_configured_def
        log_event_def Let_def)
  show ?thesis using denied rest by simp
qed

subsection \<open>What each stage of a run adds to the log\<close>


lemma run_analysis_pipeline_effect:
  "\<exists>html_file st'. run_analysis_pipeline a data_source mode new_titles flag st
      = (fst (count_frequency (ctx a) data_source mode new_titles), html_file, st')
     \<and> pushed_today st' = pushed_today st
     \<and> dispatches st' = dispatches st
     \<and> notifications st' = notifications st"
  by (auto simp: run_analysis_pipeline_def log_event_def dispatches_def notifications_def
      split: prod.splits)







lemma get_mode_strategy_cases:
  "get_mode_strategy a =
     (if report_mode a = ''incremental'' then incremental_strategy
      else if report_mode a = ''current'' then current_strategy
      else daily_strategy)"
  by (simp add: get_mode_strategy_def MODE_STRATEGIES_def)





subsection \<open>Notifications per run\<close>




subsection \<open>The consistency error\<close>






subsection \<open>Unrecognised report modes\<close>

lemma send_notification_same:
  assumes "ctx a = ctx a'"
      and "has_valid_content a stats new_titles = has_valid_content a' stats new_titles"
      and "same_notifications st st'"
  shows "same_notifications
           (snd (send_notification_if_needed a stats report_type mode new_titles st))
           (snd (send_notification_if_needed a' stats report_type mode new_titles st'))"
  using assms
  by (simp add: send_notification_if_needed_def has_notification_configured_def
      same_notifications_def notifications_def log_event_def Let_def)

lemma run_analysis_pipeline_same:
  assumes "same_notifications st st'"
  shows "same_notifications
           (snd (snd (run_analysis_pipeline a data_source mode new_titles flag st)))
           (snd (snd (run_analysis_pipeline a' data_source' mode' new_titles' flag' st')))"
  using assms run_analysis_pipeline_effect [of a data_source mode new_titles flag st]
    run_analysis_pipeline_effect [of a' data_source' mode' new_titles' flag' st']
  by (auto simp: same_notifications_def)

lemma has_valid_content_daily_like:
  assumes "report_mode a \<noteq> ''incremental''" and "report_mode a \<noteq> ''current''"
  shows "has_valid_content a stats new_titles
         = has_valid_content (a\<lparr>report_mode := ''daily''\<rparr>) stats new_titles"
  using assms by (simp add: has_valid_content_def)

lemma load_analysis_data_ctx:
  "ctx a = ctx a' \<Longrightarrow> load_analysis_data a' = load_analysis_data a"
  by (auto simp: load_analysis_data_def split: sum.splits)

lemma generate_summary_report_same:
  assumes "ctx a = ctx a'"
      and "\<And>stats new_titles. has_valid_content a stats new_titles = has_valid_content a' stats new_titles"
      and "same_notifications st st'"
  shows "same_notifications (snd (generate_summary_report a ms st))
                            (snd (generate_summary_report a' ms st'))"
proof (cases "load_analysis_data a")
  case None
  moreover have "load_analysis_data a' = load_analysis_data a"
    using assms(1) by (rule load_analysis_data_ctx)
  ultimately show ?thesis using assms(3) by (simp add: generate_summary_report_def)
next
  case (Some p)
  obtain all_results new_titles where p: "p = (all_results, new_titles)" by (cases p)
  have l': "load_analysis_data a' = Some (all_results, new_titles)"
    using load_analysis_data_ctx [OF assms(1)] Some p by simp
  let ?stats = "fst (count_frequency (ctx a) all_results (summary_mode ms) new_titles)"
  obtain h st1 where 1: "run_analysis_pipeline a all_results (summary_mode ms) new_titles True st
      = (?stats, h, st1)"
    using run_analysis_pipeline_effect by blast
  obtain h' st1' where 2: "run_analysis_pipeline a' all_results (summary_mode ms) new_titles True st'
      = (?stats, h', st1')"
    using run_analysis_pipeline_effect [of a' all_results "summary_mode ms" new_titles True st'] assms(1)
    by auto
  have "same_notifications st1 st1'"
    using run_analysis_pipeline_same [OF assms(3), of a all_results "summary_mode ms" new_titles True
        a' all_results "summary_mode ms" new_titles True] 1 2 by simp
  then have "same_notifications
           (snd (send_notification_if_needed a ?stats (summary_report_type ms) (summary_mode ms) new_titles st1))
           (snd (send_notification_if_needed a' ?stats (summary_report_type ms) (summary_mode ms) new_titles st1'))"
    using send_notification_same [OF assms(1) assms(2)] by blast
  then show ?thesis using Some p l' 1 2
    by (simp add: generate_summary_report_def split_beta)
qed

lemma run_daily_like:
  assumes "report_mode a \<noteq> ''incremental''" and "report_mode a \<noteq> ''current''"
  shows "run a st
         = Inr (snd (generate_summary_report a daily_strategy
                  (snd (snd (run_analysis_pipeline a (fst (crawl_websites (ctx a))) (report_mode a)
                               (detect_new_titles (ctx a)) False
                               (snd (snd (crawl_data a st))))))))"
  using assms
  by (simp add: run_def execute_mode_strategy_def get_mode_strategy_cases daily_strategy_def
      crawl_data_def Let_def split: prod.splits)

text \<open>
  C10. For a report mode other than \<open>incremental\<close>, \<open>current\<close> and \<open>daily\<close>, the empty
  string and typos included, the strategy lookup returns the daily strategy: no real-time
  push, a summary with notification. The content gate is the daily one, and the run
  completes with the same notifications and the same push record as the run in daily
  mode.
\<close>

theorem unknown_report_mode_is_daily:
  assumes "report_mode a \<notin> {''incremental'', ''current'', ''daily''}"
  shows "get_mode_strategy a = daily_strategy
       \<and> get_mode_strategy a = get_mode_strategy (a\<lparr>report_mode := ''daily''\<rparr>)
       \<and> \<not> should_send_realtime (get_mode_strategy a)
       \<and> should_generate_summary (get_mode_strategy a)
       \<and> has_valid_content a stats new_titles
         = has_valid_content (a\<lparr>report_mode := ''daily''\<rparr>) stats new_titles
       \<and> (\<exists>s s'. run a st = Inr s \<and> run (a\<lparr>report_mode := ''daily''\<rparr>) st = Inr s'
             \<and> pushed_today s = pushed_today s' \<and> notifications s = notifications s')"
proof -
  let ?d = "a\<lparr>report_mode := ''daily''\<rparr>"
  have m: "report_mode a \<noteq> ''incremental''" "report_mode a \<noteq> ''current''" using assms by auto
  have g: "get_mode_strategy a = daily_strategy" using m by (simp add: get_mode_strategy_cases)
  have g': "get_mode_strategy ?d = daily_strategy" by (simp add: get_mode_strategy_cases)
  have v: "\<And>stats new_titles. has_valid_content a stats new_titles
         = has_valid_content ?d stats new_titles"
    using m by (rule has_valid_content_daily_like)
  have c: "crawl_data ?d st = crawl_data a st" by (simp add: crawl_data_def)
  have r1: "run a st
         = Inr (snd (generate_summary_report a daily_strategy
                  (snd (snd (run_analysis_pipeline a (fst (crawl_websites (ctx a))) (report_mode a)
                               (detect_new_titles (ctx a)) False
                               (snd (snd (crawl_data a st))))))))"
    using m by (rule run_daily_like)
  have r2: "run ?d st
         = Inr (snd (generate_summary_report ?d daily_strategy
                  (snd (snd (run_analysis_pipeline ?d (fst (crawl_websites (ctx a))) ''daily''
                               (detect_new_titles (ctx a)) False
                               (snd (snd (crawl_data a st))))))))"
    using run_daily_like [of ?d st] c by simp
  have "same_notifications (snd (snd (crawl_data a st))) (snd (snd (crawl_data a st)))"
    by (simp add: same_notifications_def)
  then have "same_notifications
      (snd (snd (run_analysis_pipeline a (fst (crawl_websites (ctx a))) (report_mode a)
                               (detect_new_titles (ctx a)) False (snd (snd (crawl_data a st))))))
      (snd (snd (run_analysis_pipeline ?d (fst (crawl_websites (ctx a))) ''daily''
                               (detect_new_titles (ctx a)) False (snd (snd (crawl_data a st))))))"
    by (rule run_analysis_pipeline_same)
  then have "same_notifications
      (snd (generate_summary_report a daily_strategy
         (snd (snd (run_analysis_pipeline a (fst (crawl_websites (ctx a))) (report_mode a)
                               (detect_new_titles (ctx a)) False (snd (snd (crawl_data a st))))))))
      (snd (generate_summary_report ?d daily_strategy
         (snd (snd (run_analysis_pipeline ?d (fst (crawl_websites (ctx a))) ''daily''
                               (detect_new_titles (ctx a)) False (snd (snd (crawl_data a st))))))))"
    using generate_summary_report_same [of a ?d, OF _ v] by simp
  then have "\<exists>s s'. run a st = Inr s \<and> run ?d st = Inr s'
             \<and> pushed_today s = pushed_today s' \<and> notifications s = notifications s'"
    using r1 r2 by (simp add: same_notifications_def)
  then show ?thesis using g g' v by (simp add: daily_strategy_def)
qed

theorem unknown_report_mode_is_daily_witness:
  "report_mode (sample_analyzer ''dialy'') \<notin> {''incremental'', ''current'', ''daily''}
   \<and> get_mode_strategy (sample_analyzer ''dialy'') = daily_strategy
   \<and> get_mode_strategy (sample_analyzer []) = daily_strategy
   \<and> run (sample_analyzer ''dialy'') fresh_state
     = Inr \<lparr>pushed_today = False,
            events = [NewsDataSaved, HtmlGenerated ''dialy'' False, HtmlGenerated ''daily'' True,
                      Dispatched ''Daily Summary'' ''daily'']\<rparr>
   \<and> (\<exists>s'. run ((sample_analyzer ''dialy'')\<lparr>report_mode := ''daily''\<rparr>) fresh_state = Inr s'
          \<and> notifications s' = [Dispatched ''Daily Summary'' ''daily''])"
proof -
  have h1: "report_mode (sample_analyzer ''dialy'') \<notin> {''incremental'', ''current'', ''daily''}"
    by (simp add: sample_defs)
  have h2: "report_mode (sample_analyzer []) \<notin> {''incremental'', ''current'', ''daily''}"
    by (simp add: sample_defs)
  have c1: "get_mode_strategy (sample_analyzer ''dialy'') = daily_strategy"
    using unknown_report_mode_is_daily [OF h1] by blast
  have c2: "get_mode_strategy (sample_analyzer []) = daily_strategy"
    using unknown_report_mode_is_daily [OF h2] by blast
  have r: "run (sample_analyzer ''dialy'') fresh_state
     = Inr \<lparr>pushed_today = False,
            events = [NewsDataSaved, HtmlGenerated ''dialy'' False, HtmlGenerated ''daily'' True,
                      Dispatched ''Daily Summary'' ''daily'']\<rparr>"
    by (simp add: sample_defs run_defs)
  have "\<exists>s s'. run (sample_analyzer ''dialy'') fresh_state = Inr s
          \<and> run ((sample_analyzer ''dialy'')\<lparr>report_mode := ''daily''\<rparr>) fresh_state = Inr s'
          \<and> pushed_today s = pushed_today s' \<and> notifications s = notifications s'"
    using unknown_report_mode_is_daily
      [OF h1, where st = fresh_state and stats = "[]" and new_titles = None]
    by (elim conjE)
  then obtain s s' where ss: "run (sample_analyzer ''dialy'') fresh_state = Inr s"
      "run ((sample_analyzer ''dialy'')\<lparr>report_mode := ''daily''\<rparr>) fresh_state = Inr s'"
      "notifications s = notifications s'"
    by blast
  from ss(1) r have "notifications s = [Dispatched ''Daily Summary'' ''daily'']"
    by (auto simp: notifications_def)
  with ss have c3: "\<exists>s'. run ((sample_analyzer ''dialy'')\<lparr>report_mode := ''daily''\<rparr>) fresh_state = Inr s'
          \<and> notifications s' = [Dispatched ''Daily Summary'' ''daily'']"
    by auto
  show ?thesis using h1 c1 c2 r c3 by simp
qed

end
